theory Spec2Isabelle
  imports Complex_Main
begin

section \<open>JavaScript values used by the list component\<close>

text \<open>
  The component computes with JavaScript numbers. The model covers the integer-valued
  numbers together with the three special values that the arithmetic of the component
  can produce from them: \<open>Infinity\<close>, \<open>-Infinity\<close> and \<open>NaN\<close>. Fractional numbers
  and the negative zero are not inputs of the model; a zero that arithmetic produces is
  \<open>Num 0\<close> whatever its sign, which is sound here because the component never divides
  by a computed value. Integers are unbounded: list lengths and page numbers stay far
  below \<open>2^53\<close>, where JavaScript arithmetic on them is exact.
\<close>

datatype number = Num int | PosInfinity | NegInfinity | NaN

datatype jsval = Undefined | Null | Boolean bool | Number number | Str string

text \<open>ToBoolean: \<open>0\<close>, \<open>NaN\<close>, \<open>''\<close>, \<open>undefined\<close>, \<open>null\<close> and \<open>false\<close> are falsy.\<close>

fun truthy_number :: "number \<Rightarrow> bool" where
  "truthy_number (Num i) = (i \<noteq> 0)"
| "truthy_number PosInfinity = True"
| "truthy_number NegInfinity = True"
| "truthy_number NaN = False"

fun truthy :: "jsval \<Rightarrow> bool" where
  "truthy Undefined = False"
| "truthy Null = False"
| "truthy (Boolean b) = b"
| "truthy (Number x) = truthy_number x"
| "truthy (Str s) = (s \<noteq> [])"

text \<open>\<open>x || d\<close> for an optional number \<open>x\<close> (an absent property reads \<open>undefined\<close>).\<close>

definition number_or :: "number option \<Rightarrow> number \<Rightarrow> number" where
  "number_or x d = (case x of None \<Rightarrow> d | Some v \<Rightarrow> if truthy_number v then v else d)"

text \<open>\<open>a - b\<close>\<close>

fun js_minus :: "number \<Rightarrow> number \<Rightarrow> number" where
  "js_minus NaN b = NaN"
| "js_minus a NaN = NaN"
| "js_minus (Num x) (Num y) = Num (x - y)"
| "js_minus (Num x) PosInfinity = NegInfinity"
| "js_minus (Num x) NegInfinity = PosInfinity"
| "js_minus PosInfinity PosInfinity = NaN"
| "js_minus PosInfinity b = PosInfinity"
| "js_minus NegInfinity NegInfinity = NaN"
| "js_minus NegInfinity b = NegInfinity"

text \<open>\<open>a * b\<close>\<close>

fun js_times :: "number \<Rightarrow> number \<Rightarrow> number" where
  "js_times NaN b = NaN"
| "js_times a NaN = NaN"
| "js_times (Num x) (Num y) = Num (x * y)"
| "js_times (Num x) PosInfinity =
     (if x = 0 then NaN else if 0 < x then PosInfinity else NegInfinity)"
| "js_times (Num x) NegInfinity =
     (if x = 0 then NaN else if 0 < x then NegInfinity else PosInfinity)"
| "js_times PosInfinity (Num y) =
     (if y = 0 then NaN else if 0 < y then PosInfinity else NegInfinity)"
| "js_times NegInfinity (Num y) =
     (if y = 0 then NaN else if 0 < y then NegInfinity else PosInfinity)"
| "js_times PosInfinity PosInfinity = PosInfinity"
| "js_times PosInfinity NegInfinity = NegInfinity"
| "js_times NegInfinity PosInfinity = NegInfinity"
| "js_times NegInfinity NegInfinity = PosInfinity"

text \<open>\<open>a > b\<close>: every comparison with \<open>NaN\<close> is false.\<close>

fun js_gt :: "number \<Rightarrow> number \<Rightarrow> bool" where
  "js_gt NaN b = False"
| "js_gt a NaN = False"
| "js_gt (Num x) (Num y) = (y < x)"
| "js_gt (Num x) PosInfinity = False"
| "js_gt (Num x) NegInfinity = True"
| "js_gt PosInfinity PosInfinity = False"
| "js_gt PosInfinity b = True"
| "js_gt NegInfinity b = False"

text \<open>
  \<open>Math.ceil(a / b)\<close>. The quotient of two integers need not be an integer, so the
  division and the rounding are one operation of the model. Division by zero does not
  raise in JavaScript: it yields an infinity, or \<open>NaN\<close> for \<open>0 / 0\<close>.
\<close>

fun ceil_div :: "number \<Rightarrow> number \<Rightarrow> number" where
  "ceil_div NaN b = NaN"
| "ceil_div a NaN = NaN"
| "ceil_div (Num x) (Num y) =
     (if y = 0 then (if x = 0 then NaN else if 0 < x then PosInfinity else NegInfinity)
      else Num (- ((- x) div y)))"
| "ceil_div (Num x) PosInfinity = Num 0"
| "ceil_div (Num x) NegInfinity = Num 0"
| "ceil_div PosInfinity (Num y) = (if 0 \<le> y then PosInfinity else NegInfinity)"
| "ceil_div NegInfinity (Num y) = (if 0 \<le> y then NegInfinity else PosInfinity)"
| "ceil_div PosInfinity b = NaN"
| "ceil_div NegInfinity b = NaN"

subsection \<open>\<open>Array.prototype.splice(start, deleteCount)\<close>\<close>

text \<open>
  Both arguments go through ToIntegerOrInfinity (\<open>NaN\<close> becomes 0). A negative start
  counts from the end of the array; the delete count is clamped to what is left after
  the start. \<open>splice\<close> returns the removed elements and changes the array it is called
  on: the model returns both, the removed elements first.
\<close>

definition splice_start :: "nat \<Rightarrow> number \<Rightarrow> nat" where
  "splice_start len start =
     (case start of
        NaN \<Rightarrow> 0
      | NegInfinity \<Rightarrow> 0
      | PosInfinity \<Rightarrow> len
      | Num i \<Rightarrow> if i < 0 then nat (max (int len + i) 0) else min (nat i) len)"

definition splice_count :: "nat \<Rightarrow> nat \<Rightarrow> number \<Rightarrow> nat" where
  "splice_count len actualStart deleteCount =
     (case deleteCount of
        NaN \<Rightarrow> 0
      | NegInfinity \<Rightarrow> 0
      | PosInfinity \<Rightarrow> len - actualStart
      | Num i \<Rightarrow> nat (min (max i 0) (int len - int actualStart)))"

definition array_splice :: "'a list \<Rightarrow> number \<Rightarrow> number \<Rightarrow> 'a list \<times> 'a list" where
  "array_splice xs start deleteCount =
     (let actualStart = splice_start (length xs) start;
          actualDeleteCount = splice_count (length xs) actualStart deleteCount
      in (take actualDeleteCount (drop actualStart xs),
          take actualStart xs @ drop (actualStart + actualDeleteCount) xs))"

section \<open>The list component: pagination\<close>

text \<open>
  \<open>PaginationConfig\<close> is declared by the pagination component; the list reads the
  fields below. Every field is optional. \<open>'h\<close> is the type of the caller's handlers.
\<close>

record 'h PaginationConfig =
  pc_current :: "number option"
  pc_pageSize :: "number option"
  pc_total :: "number option"
  pc_defaultCurrent :: "number option"
  pc_defaultPageSize :: "number option"
  pc_position :: "string option"
  pc_onChange :: "'h option"
  pc_onShowSizeChange :: "'h option"

text \<open>The empty object \<open>{}\<close>.\<close>

definition empty_config :: "'h PaginationConfig" where
  "empty_config =
     \<lparr>pc_current = None, pc_pageSize = None, pc_total = None, pc_defaultCurrent = None,
      pc_defaultPageSize = None, pc_position = None, pc_onChange = None,
      pc_onShowSizeChange = None\<rparr>"

text \<open>
  The prop \<open>pagination\<close> is a configuration object or \<open>false\<close>: \<open>None\<close> is the falsy
  value. \<open>paginationObj\<close> is \<open>pagination && typeof pagination === 'object' ? pagination : {}\<close>.
\<close>

definition paginationObj :: "'h PaginationConfig option \<Rightarrow> 'h PaginationConfig" where
  "paginationObj pagination = (case pagination of None \<Rightarrow> empty_config | Some cfg \<Rightarrow> cfg)"

text \<open>The two \<open>useState\<close> cells of the component: the shadow pagination state.\<close>

record list_state =
  paginationCurrent :: number
  paginationSize :: number

text \<open>The initial values of the cells, read by \<open>useState\<close> when the component mounts.\<close>

definition initial_state :: "'h PaginationConfig option \<Rightarrow> list_state" where
  "initial_state pagination =
     \<lparr>paginationCurrent = number_or (pc_defaultCurrent (paginationObj pagination)) (Num 1),
      paginationSize = number_or (pc_defaultPageSize (paginationObj pagination)) (Num 10)\<rparr>"

text \<open>
  The render-time record \<open>paginationProps\<close>: the defaults, then the length of the data
  source and the shadow state, then every field the caller's configuration has.
\<close>

record pagination_props =
  pp_current :: number
  pp_total :: number
  pp_pageSize :: number
  pp_position :: "string option"

definition paginationProps ::
  "'h PaginationConfig option \<Rightarrow> list_state \<Rightarrow> 'a list \<Rightarrow> pagination_props" where
  "paginationProps pagination st dataSource =
     (let cfg = (case pagination of None \<Rightarrow> empty_config | Some c \<Rightarrow> c)
      in \<lparr>pp_current = (case pc_current cfg of Some c \<Rightarrow> c | None \<Rightarrow> paginationCurrent st),
          pp_total = (case pc_total cfg of Some t \<Rightarrow> t | None \<Rightarrow> Num (int (length dataSource))),
          pp_pageSize = (case pc_pageSize cfg of Some p \<Rightarrow> p | None \<Rightarrow> paginationSize st),
          pp_position = pc_position cfg\<rparr>)"

definition largestPage :: "pagination_props \<Rightarrow> number" where
  "largestPage pp = ceil_div (pp_total pp) (pp_pageSize pp)"

text \<open>\<open>if (paginationProps.current > largestPage) paginationProps.current = largestPage\<close>\<close>

definition clamp_current :: "pagination_props \<Rightarrow> pagination_props" where
  "clamp_current pp =
     (if js_gt (pp_current pp) (largestPage pp) then pp\<lparr>pp_current := largestPage pp\<rparr>
      else pp)"

text \<open>The record as the rest of the render pass sees it.\<close>

definition effective_props ::
  "'h PaginationConfig option \<Rightarrow> list_state \<Rightarrow> 'a list \<Rightarrow> pagination_props" where
  "effective_props pagination st dataSource =
     clamp_current (paginationProps pagination st dataSource)"

text \<open>
  \<open>splitDataSource\<close>: a copy of the data source, replaced by the spliced window when
  pagination is on and the length of the data source exceeds the start of the window.
\<close>

definition splitDataSource ::
  "'h PaginationConfig option \<Rightarrow> pagination_props \<Rightarrow> 'a list \<Rightarrow> 'a list" where
  "splitDataSource pagination pp dataSource =
     (case pagination of
        None \<Rightarrow> dataSource
      | Some cfg \<Rightarrow>
          (let start = js_times (js_minus (pp_current pp) (Num 1)) (pp_pageSize pp)
           in if js_gt (Num (int (length dataSource))) start
              then fst (array_splice dataSource start (pp_pageSize pp))
              else dataSource))"

definition visible_slice ::
  "'h PaginationConfig option \<Rightarrow> list_state \<Rightarrow> 'a list \<Rightarrow> 'a list" where
  "visible_slice pagination st dataSource =
     splitDataSource pagination (effective_props pagination st dataSource) dataSource"

section \<open>The list component: items and keys\<close>

text \<open>
  An item of the data source is an object: its properties in order. Reading a property
  the object does not have gives \<open>undefined\<close>.
\<close>

type_synonym item = "(string \<times> jsval) list"

definition get_prop :: "item \<Rightarrow> string \<Rightarrow> jsval" where
  "get_prop it name = (case map_of it name of None \<Rightarrow> Undefined | Some v \<Rightarrow> v)"

text \<open>The prop \<open>rowKey\<close>: a function of the item, or the name of a property.\<close>

datatype rowKey = RowKeyFunction "item \<Rightarrow> jsval" | RowKeyString string

text \<open>The decimal digits of an index, for the template literal \<open>list-item-${index}\<close>.\<close>

fun decimal :: "nat \<Rightarrow> string" where
  "decimal n =
     (if n < 10 then [''0123456789'' ! n]
      else decimal (n div 10) @ [''0123456789'' ! (n mod 10)])"

declare decimal.simps [simp del]

text \<open>
  The key of an item, as \<open>renderItem\<close> computes it before it stores it in \<open>keys[index]\<close>.
\<close>

definition item_key :: "rowKey option \<Rightarrow> item \<Rightarrow> nat \<Rightarrow> jsval" where
  "item_key rk it index =
     (let key = (case rk of
                   Some (RowKeyFunction f) \<Rightarrow> f it
                 | Some (RowKeyString name) \<Rightarrow> get_prop it name
                 | None \<Rightarrow> get_prop it ''key'')
      in if \<not> truthy key then Str (''list-item-'' @ decimal index) else key)"

text \<open>
  What the caller's \<open>renderItem\<close> returns is a React node: \<open>None\<close> is \<open>null\<close>, \<open>Some e\<close>
  is a single React element \<open>e\<close>. The local function \<open>renderItem\<close> of the component
  returns \<open>null\<close> when the prop is missing, before it touches \<open>keys\<close>; otherwise it
  stores the key and calls the prop. The map \<open>keys\<close> is passed through.
\<close>

definition renderItem ::
  "rowKey option \<Rightarrow> (item \<Rightarrow> nat \<Rightarrow> 'e option) option \<Rightarrow> (nat \<rightharpoonup> jsval) \<Rightarrow> item \<Rightarrow> nat
     \<Rightarrow> (nat \<rightharpoonup> jsval) \<times> 'e option" where
  "renderItem rk render keys it index =
     (case render of
        None \<Rightarrow> (keys, None)
      | Some r \<Rightarrow> (keys(index \<mapsto> item_key rk it index), r it index))"

text \<open>\<open>splitDataSource.map((item, index) => renderItem(item, index))\<close>, from \<open>index\<close> on.\<close>

fun map_renderItem ::
  "rowKey option \<Rightarrow> (item \<Rightarrow> nat \<Rightarrow> 'e option) option \<Rightarrow> (nat \<rightharpoonup> jsval) \<Rightarrow> item list \<Rightarrow> nat
     \<Rightarrow> (nat \<rightharpoonup> jsval) \<times> 'e option list" where
  "map_renderItem rk render keys [] index = (keys, [])"
| "map_renderItem rk render keys (it # its) index =
     (let (keys1, node) = renderItem rk render keys it index;
          (keys2, nodes) = map_renderItem rk render keys1 its (Suc index)
      in (keys2, node # nodes))"

text \<open>
  The only exception of the render pass. \<open>React.cloneElement\<close> needs a React element:
  called on \<open>null\<close> it throws. The error carries the index of the child.
\<close>

datatype error = CloneElementOfNull nat

text \<open>
  An element with the key the list gave it. The key is the value passed as
  \<open>{ key: keys[index] }\<close>; \<open>Undefined\<close> (no entry in \<open>keys\<close>) leaves the key of the
  element as it was.
\<close>

record 'e keyed =
  key_of :: jsval
  element_of :: 'e

definition cloneElement :: "'e option \<Rightarrow> jsval \<Rightarrow> nat \<Rightarrow> error + 'e keyed" where
  "cloneElement child key index =
     (case child of
        None \<Rightarrow> Inl (CloneElementOfNull index)
      | Some e \<Rightarrow> Inr \<lparr>key_of = key, element_of = e\<rparr>)"

text \<open>
  \<open>React.Children.forEach(items, (child, index) => childrenList.push(cloneElement(...)))\<close>.
  \<open>forEach\<close> calls the function on every entry of the array, on \<open>null\<close> entries as
  well, and counts them all in \<open>index\<close>. The first exception ends the loop.
\<close>

fun clone_children ::
  "(nat \<rightharpoonup> jsval) \<Rightarrow> 'e option list \<Rightarrow> nat \<Rightarrow> error + 'e keyed list" where
  "clone_children keys [] index = Inr []"
| "clone_children keys (child # children) index =
     (case cloneElement child (case keys index of None \<Rightarrow> Undefined | Some k \<Rightarrow> k) index of
        Inl e \<Rightarrow> Inl e
      | Inr c \<Rightarrow>
          (case clone_children keys children (Suc index) of
             Inl e \<Rightarrow> Inl e
           | Inr cs \<Rightarrow> Inr (c # cs)))"

definition childrenList ::
  "rowKey option \<Rightarrow> (item \<Rightarrow> nat \<Rightarrow> 'e option) option \<Rightarrow> item list \<Rightarrow> error + 'e keyed list" where
  "childrenList rk render slice =
     (let (keys, items) = map_renderItem rk render Map.empty slice 0
      in clone_children keys items 0)"

section \<open>The ambient configuration\<close>

text \<open>
  The configuration context that the provider publishes and the list reads. Its type is
  declared beside the provider; the fields are the ones the two components use. \<open>'n\<close>
  is the type of caller-supplied React nodes, \<open>'pc\<close> of popup-container functions,
  \<open>'v\<close> of the values of validation messages.
\<close>

datatype direction = Ltr | Rtl

datatype SizeType = Small | Middle | Large

text \<open>A validation-messages object: its keys in order, each once.\<close>

type_synonym 'v ValidateMessages = "(string \<times> 'v) list"

record 'v LocaleForm =
  defaultValidateMessages :: "'v ValidateMessages option"

record 'v Locale =
  locale_name :: string
  Form :: "'v LocaleForm option"

record ('n, 'pc, 'v) ConfigConsumerProps =
  cc_getPopupContainer :: "'pc option"
  cc_getPrefixCls :: "string \<Rightarrow> string option \<Rightarrow> string"
  cc_renderEmpty :: "string \<Rightarrow> 'n"
  cc_csp :: "string option"
  cc_autoInsertSpaceInButton :: "bool option"
  cc_locale :: "'v Locale option"
  cc_pageHeader :: "bool option"
  cc_direction :: "direction option"
  cc_space :: "SizeType option"

section \<open>The list component: the render pass\<close>

record ListGridType =
  gutter :: "number option"
  column :: "number option"

record SpinProps =
  spinning :: "bool option"

text \<open>The prop \<open>loading\<close>: a boolean (by default \<open>false\<close>) or the props of the spinner.\<close>

datatype loading = LoadingBoolean bool | LoadingSpinProps SpinProps

record 'n ListLocale =
  emptyText :: "'n option"

text \<open>
  The props of the list. A caller-supplied node is \<open>None\<close> when it is absent (or any
  other falsy node) and \<open>Some n\<close> otherwise.
\<close>

record ('e, 'n, 'h) ListProps =
  p_children :: "'n option"
  p_dataSource :: "item list"
  p_grid :: "ListGridType option"
  p_loading :: loading
  p_loadMore :: "'n option"
  p_pagination :: "'h PaginationConfig option"
  p_prefixCls :: "string option"
  p_rowKey :: "rowKey option"
  p_renderItem :: "(item \<Rightarrow> nat \<Rightarrow> 'e option) option"
  p_header :: "'n option"
  p_footer :: "'n option"
  p_locale :: "'n ListLocale option"

definition loadingProp :: "loading \<Rightarrow> SpinProps" where
  "loadingProp l = (case l of LoadingBoolean b \<Rightarrow> \<lparr>spinning = Some b\<rparr> | LoadingSpinProps sp \<Rightarrow> sp)"

definition isLoading :: "loading \<Rightarrow> bool" where
  "isLoading l = (case spinning (loadingProp l) of None \<Rightarrow> False | Some b \<Rightarrow> b)"

definition isSomethingAfterLastItem :: "('e, 'n, 'h) ListProps \<Rightarrow> bool" where
  "isSomethingAfterLastItem props =
     (p_loadMore props \<noteq> None \<or> p_pagination props \<noteq> None \<or> p_footer props \<noteq> None)"

text \<open>What the list puts between the header and the footer, before the extra children.\<close>

datatype ('e, 'n) content =
    NoContent
  | MinHeightPlaceholder nat
  | GridRow "number option" "'e keyed list"
  | ItemsList string "'e keyed list"
  | EmptyText string 'n

definition renderEmptyFunc ::
  "'n ListLocale option \<Rightarrow> string \<Rightarrow> (string \<Rightarrow> 'n) \<Rightarrow> ('e, 'n) content" where
  "renderEmptyFunc locale prefixCls renderEmptyHandler =
     EmptyText (prefixCls @ ''-empty-text'')
       (case (case locale of None \<Rightarrow> None | Some l \<Rightarrow> emptyText l) of
          Some n \<Rightarrow> n
        | None \<Rightarrow> renderEmptyHandler ''List'')"

text \<open>
  \<open>childrenContent\<close>: first \<open>isLoading && <div style={{ minHeight: 53 }} />\<close>; then, when
  the slice is not empty, the list of cloned items (in a grid row or a plain list),
  whatever \<open>isLoading\<close> is; else the empty text when there are no children and the list
  is not loading.
\<close>

definition childrenContent ::
  "('e, 'n, 'h) ListProps \<Rightarrow> string \<Rightarrow> (string \<Rightarrow> 'n) \<Rightarrow> item list \<Rightarrow> error + ('e, 'n) content" where
  "childrenContent props prefixCls renderEmpty slice =
     (let initial = (if isLoading (p_loading props) then MinHeightPlaceholder 53 else NoContent)
      in if 0 < length slice
         then (case childrenList (p_rowKey props) (p_renderItem props) slice of
                 Inl e \<Rightarrow> Inl e
               | Inr cl \<Rightarrow>
                   Inr (case p_grid props of
                          Some g \<Rightarrow> GridRow (gutter g) cl
                        | None \<Rightarrow> ItemsList (prefixCls @ ''-items'') cl))
         else if p_children props = None \<and> \<not> isLoading (p_loading props)
         then Inr (renderEmptyFunc (p_locale props) prefixCls renderEmpty)
         else Inr initial)"

text \<open>What follows the footer: the \<open>loadMore\<close> node, or the bottom pagination control.\<close>

datatype 'n after_footer = LoadMore 'n | BottomPagination pagination_props | NothingAfter

text \<open>
  The tree the list returns. A pagination control is represented by the props it is
  given; its two change handlers are always the ones of the list
  (\<open>triggerPaginationEvent\<close> below).
\<close>

record ('e, 'n) list_view =
  v_rtl :: bool
  v_something_after_last_item :: bool
  v_top_pagination :: "pagination_props option"
  v_header :: "'n option"
  v_spin :: SpinProps
  v_content :: "('e, 'n) content"
  v_children :: "'n option"
  v_footer :: "'n option"
  v_after :: "'n after_footer"

text \<open>
  The render pass after \<open>splitDataSource\<close>: from the clamped \<open>paginationProps\<close> and
  the visible slice to the tree.
\<close>

definition List_tree ::
  "('e, 'n, 'h) ListProps \<Rightarrow> ('n, 'pc, 'v) ConfigConsumerProps \<Rightarrow> pagination_props \<Rightarrow> item list
     \<Rightarrow> error + ('e, 'n) list_view" where
  "List_tree props context pp slice =
     (let prefixCls = cc_getPrefixCls context ''list'' (p_prefixCls props);
          paginationContent =
            (case p_pagination props of None \<Rightarrow> None | Some cfg \<Rightarrow> Some pp);
          paginationPosition = (case pp_position pp of
                                  None \<Rightarrow> ''bottom''
                                | Some pos \<Rightarrow> if pos = [] then ''bottom'' else pos)
      in case childrenContent props prefixCls (cc_renderEmpty context) slice of
           Inl e \<Rightarrow> Inl e
         | Inr body \<Rightarrow>
             Inr \<lparr>v_rtl = (cc_direction context = Some Rtl),
                  v_something_after_last_item = isSomethingAfterLastItem props,
                  v_top_pagination =
                    (if paginationPosition = ''top'' \<or> paginationPosition = ''both''
                     then paginationContent else None),
                  v_header = p_header props,
                  v_spin = loadingProp (p_loading props),
                  v_content = body,
                  v_children = p_children props,
                  v_footer = p_footer props,
                  v_after =
                    (case p_loadMore props of
                       Some n \<Rightarrow> LoadMore n
                     | None \<Rightarrow>
                         (if paginationPosition = ''bottom'' \<or> paginationPosition = ''both''
                          then (case paginationContent of
                                  None \<Rightarrow> NothingAfter
                                | Some content \<Rightarrow> BottomPagination content)
                          else NothingAfter))\<rparr>)"

text \<open>The whole render pass, as a function of the props, the context and the state.\<close>

definition List_render ::
  "('e, 'n, 'h) ListProps \<Rightarrow> ('n, 'pc, 'v) ConfigConsumerProps \<Rightarrow> list_state
     \<Rightarrow> error + ('e, 'n) list_view" where
  "List_render props context st =
     List_tree props context
       (effective_props (p_pagination props) st (p_dataSource props))
       (visible_slice (p_pagination props) st (p_dataSource props))"

section \<open>The list component: pagination events\<close>

text \<open>
  The component and what it can reach: its shadow state, the log of the calls it has
  made to the caller's handlers, and the store of the arrays and of the
  \<open>paginationProps\<close> objects, by address; \<open>next_address\<close> is the first address not yet
  in use. A log entry keeps the handler, the two arguments of the call and the shadow
  state at the moment of the call.
\<close>

record 'h handler_call =
  called :: 'h
  call_page :: number
  call_pageSize :: number
  state_at_call :: list_state

record 'h world =
  shadow :: list_state
  calls :: "'h handler_call list"
  arrays :: "nat \<rightharpoonup> item list"
  objects :: "nat \<rightharpoonup> pagination_props"
  next_address :: nat

definition setPaginationCurrent :: "number \<Rightarrow> 'h world \<Rightarrow> 'h world" where
  "setPaginationCurrent page w = w\<lparr>shadow := (shadow w)\<lparr>paginationCurrent := page\<rparr>\<rparr>"

definition setPaginationSize :: "number \<Rightarrow> 'h world \<Rightarrow> 'h world" where
  "setPaginationSize pageSize w = w\<lparr>shadow := (shadow w)\<lparr>paginationSize := pageSize\<rparr>\<rparr>"

definition invoke :: "'h \<Rightarrow> number \<Rightarrow> number \<Rightarrow> 'h world \<Rightarrow> 'h world" where
  "invoke h page pageSize w =
     w\<lparr>calls := calls w @
          [\<lparr>called = h, call_page = page, call_pageSize = pageSize, state_at_call = shadow w\<rparr>]\<rparr>"

text \<open>\<open>pagination[eventName]\<close>, for the properties that hold handlers.\<close>

definition handler_named :: "'h PaginationConfig \<Rightarrow> string \<Rightarrow> 'h option" where
  "handler_named cfg eventName =
     (if eventName = ''onChange'' then pc_onChange cfg
      else if eventName = ''onShowSizeChange'' then pc_onShowSizeChange cfg
      else None)"

definition triggerPaginationEvent ::
  "'h PaginationConfig option \<Rightarrow> string \<Rightarrow> number \<Rightarrow> number \<Rightarrow> 'h world \<Rightarrow> 'h world" where
  "triggerPaginationEvent pagination eventName page pageSize w =
     (let w1 = setPaginationCurrent page w;
          w2 = setPaginationSize pageSize w1
      in case pagination of
           None \<Rightarrow> w2
         | Some cfg \<Rightarrow>
             (case handler_named cfg eventName of
                None \<Rightarrow> w2
              | Some h \<Rightarrow> invoke h page pageSize w2))"

definition onPaginationChange ::
  "'h PaginationConfig option \<Rightarrow> number \<Rightarrow> number \<Rightarrow> 'h world \<Rightarrow> 'h world" where
  "onPaginationChange pagination = triggerPaginationEvent pagination ''onChange''"

definition onPaginationShowSizeChange ::
  "'h PaginationConfig option \<Rightarrow> number \<Rightarrow> number \<Rightarrow> 'h world \<Rightarrow> 'h world" where
  "onPaginationShowSizeChange pagination = triggerPaginationEvent pagination ''onShowSizeChange''"

section \<open>The list component: the render pass on the store\<close>

text \<open>
  The same render pass where arrays and the \<open>paginationProps\<close> object are mutable and
  live in the store: the prop \<open>dataSource\<close> is the address of the caller's array. An
  address without an array reads as \<open>[]\<close>, the default of the prop.
\<close>

definition read_array :: "'h world \<Rightarrow> nat \<Rightarrow> item list" where
  "read_array w a = (case arrays w a of None \<Rightarrow> [] | Some xs \<Rightarrow> xs)"

definition alloc_array :: "item list \<Rightarrow> 'h world \<Rightarrow> nat \<times> 'h world" where
  "alloc_array xs w =
     (next_address w,
      w\<lparr>arrays := (arrays w)(next_address w \<mapsto> xs), next_address := Suc (next_address w)\<rparr>)"

definition alloc_object :: "pagination_props \<Rightarrow> 'h world \<Rightarrow> nat \<times> 'h world" where
  "alloc_object pp w =
     (next_address w,
      w\<lparr>objects := (objects w)(next_address w \<mapsto> pp), next_address := Suc (next_address w)\<rparr>)"

text \<open>\<open>obj.current = v\<close> on the object at an address.\<close>

definition write_current :: "nat \<Rightarrow> number \<Rightarrow> 'h world \<Rightarrow> 'h world" where
  "write_current a v w =
     (case objects w a of
        None \<Rightarrow> w
      | Some pp \<Rightarrow> w\<lparr>objects := (objects w)(a \<mapsto> pp\<lparr>pp_current := v\<rparr>)\<rparr>)"

text \<open>
  \<open>arr.splice(start, deleteCount)\<close> on the array at an address: the array keeps the
  elements that were not removed, the removed ones are a new array.
\<close>

definition splice_array :: "nat \<Rightarrow> number \<Rightarrow> number \<Rightarrow> 'h world \<Rightarrow> nat \<times> 'h world" where
  "splice_array a start deleteCount w =
     (let (removed, rest) = array_splice (read_array w a) start deleteCount
      in alloc_array removed (w\<lparr>arrays := (arrays w)(a \<mapsto> rest)\<rparr>))"

text \<open>
  From \<open>paginationProps\<close> to \<open>splitDataSource\<close>. The result is the address of the
  \<open>paginationProps\<close> object with the record it holds at the end, and the address of
  \<open>splitDataSource\<close>.
\<close>

definition pagination_pass ::
  "'h PaginationConfig option \<Rightarrow> nat \<Rightarrow> 'h world \<Rightarrow> (nat \<times> pagination_props \<times> nat) \<times> 'h world" where
  "pagination_pass pagination dataSource w =
     (let (props_at, w1) =
            alloc_object (paginationProps pagination (shadow w) (read_array w dataSource)) w;
          pp1 = paginationProps pagination (shadow w) (read_array w dataSource);
          w2 = (if js_gt (pp_current pp1) (largestPage pp1)
                then write_current props_at (largestPage pp1) w1 else w1);
          pp2 = (case objects w2 props_at of None \<Rightarrow> pp1 | Some pp \<Rightarrow> pp);
          (copy_at, w3) = alloc_array (read_array w2 dataSource) w2;
          start = js_times (js_minus (pp_current pp2) (Num 1)) (pp_pageSize pp2)
      in case pagination of
           None \<Rightarrow> ((props_at, pp2, copy_at), w3)
         | Some cfg \<Rightarrow>
             if js_gt (Num (int (length (read_array w3 dataSource)))) start
             then (let (spliced_at, w4) = alloc_array (read_array w3 dataSource) w3;
                       (removed_at, w5) = splice_array spliced_at start (pp_pageSize pp2) w4
                   in ((props_at, pp2, removed_at), w5))
             else ((props_at, pp2, copy_at), w3))"

definition render_pass ::
  "('e, 'n, 'h) ListProps \<Rightarrow> ('n, 'pc, 'v) ConfigConsumerProps \<Rightarrow> nat \<Rightarrow> 'h world
     \<Rightarrow> (error + ('e, 'n) list_view) \<times> 'h world" where
  "render_pass props context dataSource w =
     (let ((props_at, pp, slice_at), w') = pagination_pass (p_pagination props) dataSource w
      in (List_tree props context pp (read_array w' slice_at), w'))"

text \<open>
  What can happen to a mounted list: a render pass, or one of the two events of its
  pagination control.
\<close>

datatype ('e, 'n, 'h, 'pc, 'v) action =
    Render "('e, 'n, 'h) ListProps" "('n, 'pc, 'v) ConfigConsumerProps" nat
  | Change "'h PaginationConfig option" number number
  | ShowSizeChange "'h PaginationConfig option" number number

fun step :: "('e, 'n, 'h, 'pc, 'v) action \<Rightarrow> 'h world \<Rightarrow> 'h world" where
  "step (Render props context dataSource) w = snd (render_pass props context dataSource w)"
| "step (Change pagination page pageSize) w = onPaginationChange pagination page pageSize w"
| "step (ShowSizeChange pagination page pageSize) w =
     onPaginationShowSizeChange pagination page pageSize w"

fun is_pagination_event :: "('e, 'n, 'h, 'pc, 'v) action \<Rightarrow> bool" where
  "is_pagination_event (Render props context dataSource) = False"
| "is_pagination_event (Change pagination page pageSize) = True"
| "is_pagination_event (ShowSizeChange pagination page pageSize) = True"

section \<open>The configuration provider\<close>

record 'v FormConfig =
  validateMessages :: "'v ValidateMessages option"

text \<open>
  The props of the provider, but for \<open>children\<close>: the children are a separate argument
  of \<open>renderProvider\<close>, so that a tree of providers can be a datatype.
\<close>

record ('n, 'pc, 'v) ConfigProviderProps =
  cp_getPopupContainer :: "'pc option"
  cp_prefixCls :: "string option"
  cp_renderEmpty :: "(string \<Rightarrow> 'n) option"
  cp_csp :: "string option"
  cp_autoInsertSpaceInButton :: "bool option"
  cp_form :: "'v FormConfig option"
  cp_locale :: "'v Locale option"
  cp_pageHeader :: "bool option"
  cp_componentSize :: "SizeType option"
  cp_direction :: "direction option"
  cp_space :: "SizeType option"

text \<open>\<open>s || t\<close> for an optional string: the empty string is falsy.\<close>

definition string_or :: "string option \<Rightarrow> string \<Rightarrow> string" where
  "string_or s t = (case s of None \<Rightarrow> t | Some x \<Rightarrow> if x = [] then t else x)"

definition getPrefixClsWrapper ::
  "('n, 'pc, 'v) ConfigProviderProps \<Rightarrow> ('n, 'pc, 'v) ConfigConsumerProps
     \<Rightarrow> string \<Rightarrow> string option \<Rightarrow> string" where
  "getPrefixClsWrapper props context suffixCls customizePrefixCls =
     (if string_or customizePrefixCls [] \<noteq> [] then string_or customizePrefixCls []
      else (let mergedPrefixCls = string_or (cp_prefixCls props) (cc_getPrefixCls context [] None)
            in if suffixCls \<noteq> [] then mergedPrefixCls @ ''-'' @ suffixCls else mergedPrefixCls))"

text \<open>
  Object spread \<open>{ ...a, ...b }\<close> on objects with string keys: a key of \<open>b\<close> that \<open>a\<close>
  has takes the value of \<open>b\<close> in the place it has in \<open>a\<close>; the other keys of \<open>b\<close>
  follow in their order.
\<close>

fun assign :: "(string \<times> 'v) list \<Rightarrow> string \<Rightarrow> 'v \<Rightarrow> (string \<times> 'v) list" where
  "assign [] k v = [(k, v)]"
| "assign ((k', v') # kvs) k v = (if k' = k then (k, v) # kvs else (k', v') # assign kvs k v)"

definition spread :: "(string \<times> 'v) list \<Rightarrow> (string \<times> 'v) list \<Rightarrow> (string \<times> 'v) list" where
  "spread a b = foldl (\<lambda>acc (k, v). assign acc k v) a b"

text \<open>\<open>locale && locale.Form && locale.Form.defaultValidateMessages\<close>, or \<open>{}\<close>.\<close>

definition localeDefaultMessages :: "'v Locale option \<Rightarrow> 'v ValidateMessages" where
  "localeDefaultMessages l =
     (case l of
        None \<Rightarrow> []
      | Some loc \<Rightarrow>
          (case Form loc of
             None \<Rightarrow> []
           | Some f \<Rightarrow> (case defaultValidateMessages f of None \<Rightarrow> [] | Some m \<Rightarrow> m)))"

text \<open>\<open>form && form.validateMessages\<close>\<close>

definition formMessages :: "'v FormConfig option \<Rightarrow> 'v ValidateMessages option" where
  "formMessages f = (case f of None \<Rightarrow> None | Some fc \<Rightarrow> validateMessages fc)"

text \<open>
  The validation messages of the provider. The defaults are read from the prop
  \<open>locale\<close> of this provider, not from the locale it publishes
  (\<open>locale || legacyLocale\<close>).
\<close>

definition mergedValidateMessages ::
  "('n, 'pc, 'v) ConfigProviderProps \<Rightarrow> 'v ValidateMessages" where
  "mergedValidateMessages props =
     (case formMessages (cp_form props) of
        None \<Rightarrow> localeDefaultMessages (cp_locale props)
      | Some m \<Rightarrow> spread (localeDefaultMessages (cp_locale props)) m)"

text \<open>The children as the provider passes them on: as they are, or in a form provider.\<close>

datatype ('c, 'v) child_node = Children 'c | RcFormProvider "'v ValidateMessages" 'c

record ('c, 'n, 'pc, 'v) provider_view =
  size_context :: "SizeType option"
  config :: "('n, 'pc, 'v) ConfigConsumerProps"
  locale_provided :: "'v Locale option"
  childNode :: "('c, 'v) child_node"

definition renderProvider ::
  "('n, 'pc, 'v) ConfigProviderProps \<Rightarrow> 'c \<Rightarrow> ('n, 'pc, 'v) ConfigConsumerProps
     \<Rightarrow> 'v Locale option \<Rightarrow> ('c, 'n, 'pc, 'v) provider_view" where
  "renderProvider props children context legacyLocale =
     (let resolved = (case cp_locale props of Some l \<Rightarrow> Some l | None \<Rightarrow> legacyLocale);
          config0 = context\<lparr>
            cc_getPrefixCls := getPrefixClsWrapper props context,
            cc_csp := cp_csp props,
            cc_autoInsertSpaceInButton := cp_autoInsertSpaceInButton props,
            cc_locale := resolved,
            cc_direction := cp_direction props,
            cc_space := cp_space props\<rparr>;
          config1 = (case cp_getPopupContainer props of
                       None \<Rightarrow> config0
                     | Some g \<Rightarrow> config0\<lparr>cc_getPopupContainer := Some g\<rparr>);
          config2 = (case cp_renderEmpty props of
                       None \<Rightarrow> config1
                     | Some r \<Rightarrow> config1\<lparr>cc_renderEmpty := r\<rparr>);
          config3 = (case cp_pageHeader props of
                       None \<Rightarrow> config2
                     | Some h \<Rightarrow> config2\<lparr>cc_pageHeader := Some h\<rparr>);
          messages = mergedValidateMessages props
      in \<lparr>size_context = cp_componentSize props,
          config = config3,
          locale_provided = resolved,
          childNode = (if 0 < length messages then RcFormProvider messages children
                       else Children children)\<rparr>)"

subsection \<open>Nested providers\<close>

text \<open>
  A tree of providers with named consumers at the leaves; the children of a provider
  are its subtrees. The locale receiver that hands a provider its legacy locale is
  outside the source of the provider: each provider of the tree comes with the legacy
  locale it receives.
\<close>

datatype ('n, 'pc, 'v) element =
    Consumer string
  | ConfigProvider "('n, 'pc, 'v) ConfigProviderProps" "'v Locale option"
      "('n, 'pc, 'v) element list"

text \<open>
  The provider renders its children inside \<open>ConfigContext.Provider value={config}\<close>: a
  consumer reads the configuration of the nearest enclosing provider, or the root
  context when there is none, and the inherited context of a provider is what a
  consumer in its place would read. \<open>observe\<close> lists the consumers of a tree, left to
  right, each with the configuration it reads.
\<close>

fun observe ::
  "('n, 'pc, 'v) ConfigConsumerProps \<Rightarrow> ('n, 'pc, 'v) element
     \<Rightarrow> (string \<times> ('n, 'pc, 'v) ConfigConsumerProps) list" where
  "observe context (Consumer name) = [(name, context)]"
| "observe context (ConfigProvider props legacyLocale children) =
     concat (map (observe (config (renderProvider props children context legacyLocale)))
       children)"

definition observed_direction ::
  "('n, 'pc, 'v) ConfigConsumerProps \<Rightarrow> ('n, 'pc, 'v) element
     \<Rightarrow> (string \<times> direction option) list" where
  "observed_direction context tree =
     map (\<lambda>(name, c). (name, cc_direction c)) (observe context tree)"

section \<open>Example inputs\<close>

text \<open>
  The data source \<open>[{key: 'a'}, {key: 'b'}, {key: 'c'}]\<close> and the configuration
  \<open>{pageSize: 2}\<close>; handlers are named by strings in the examples.
\<close>

definition three_items :: "item list" where
  "three_items = [[(''key'', Str ''a'')], [(''key'', Str ''b'')], [(''key'', Str ''c'')]]"

definition page_size_two :: "string PaginationConfig" where
  "page_size_two = empty_config\<lparr>pc_pageSize := Some (Num 2)\<rparr>"

definition no_config :: "string PaginationConfig" where
  "no_config = empty_config"

definition page_size_zero :: "string PaginationConfig" where
  "page_size_zero = empty_config\<lparr>pc_pageSize := Some (Num 0)\<rparr>"

text \<open>The state of a list mounted without pagination: page 1, ten items to a page.\<close>

definition default_state :: list_state where
  "default_state = initial_state (None :: string PaginationConfig option)"

text \<open>
  The context outside every provider: the prefix \<open>ant-\<close>, and an empty-state renderer
  that returns the node \<open>No Data\<close>. Caller-supplied nodes and rendered elements are
  strings in the examples.
\<close>

definition root_context :: "(string, unit, string) ConfigConsumerProps" where
  "root_context =
     \<lparr>cc_getPopupContainer = None,
      cc_getPrefixCls = (\<lambda>suffixCls customizePrefixCls.
         if string_or customizePrefixCls [] \<noteq> [] then string_or customizePrefixCls []
         else ''ant-'' @ suffixCls),
      cc_renderEmpty = (\<lambda>componentName. ''No Data''),
      cc_csp = None, cc_autoInsertSpaceInButton = None, cc_locale = None,
      cc_pageHeader = None, cc_direction = None, cc_space = None\<rparr>"

text \<open>A \<open>renderItem\<close> that returns an element for every item.\<close>

definition item_label :: "item \<Rightarrow> nat \<Rightarrow> string option" where
  "item_label it index = Some (''item '' @ decimal index)"

text \<open>\<open><List dataSource={three_items} renderItem={item_label} />\<close>, and variations of it.\<close>

definition plain_list :: "(string, string, string) ListProps" where
  "plain_list =
     \<lparr>p_children = None, p_dataSource = three_items, p_grid = None,
      p_loading = LoadingBoolean False, p_loadMore = None, p_pagination = None,
      p_prefixCls = None, p_rowKey = None, p_renderItem = Some item_label,
      p_header = None, p_footer = None, p_locale = None\<rparr>"

definition loading_list :: "(string, string, string) ListProps" where
  "loading_list = plain_list\<lparr>p_loading := LoadingBoolean True, p_children := Some ''extra''\<rparr>"

definition items_with_id :: "item list" where
  "items_with_id = [[(''id'', Str ''x1''), (''key'', Str ''a'')], [(''key'', Str ''b'')]]"

definition key_of_id :: rowKey where
  "key_of_id = RowKeyFunction (\<lambda>it. get_prop it ''id'')"

definition keyed_by_id :: "(string, string, string) ListProps" where
  "keyed_by_id = plain_list\<lparr>p_dataSource := items_with_id, p_rowKey := Some key_of_id\<rparr>"

definition paged_list :: "(string, string, string) ListProps" where
  "paged_list =
     plain_list\<lparr>p_dataSource := [[(''key'', Str ''a'')]], p_pagination := Some page_size_two\<rparr>"

text \<open>
  A mounted list whose shadow state is still on page 2 after the caller's array, at
  address 0, has shrunk to one item.
\<close>

definition stale_world :: "string world" where
  "stale_world =
     \<lparr>shadow = \<lparr>paginationCurrent = Num 2, paginationSize = Num 10\<rparr>,
      calls = [],
      arrays = [0 \<mapsto> [[(''key'', Str ''a'')]]],
      objects = Map.empty,
      next_address = 1\<rparr>"

text \<open>A provider without props, a locale with default messages, and local messages.\<close>

definition no_props :: "(string, unit, string) ConfigProviderProps" where
  "no_props =
     \<lparr>cp_getPopupContainer = None, cp_prefixCls = None, cp_renderEmpty = None, cp_csp = None,
      cp_autoInsertSpaceInButton = None, cp_form = None, cp_locale = None, cp_pageHeader = None,
      cp_componentSize = None, cp_direction = None, cp_space = None\<rparr>"

definition locale_R :: "string Locale" where
  "locale_R =
     \<lparr>locale_name = ''en'',
      Form = Some \<lparr>defaultValidateMessages = Some [(''required'', ''R'')]\<rparr>\<rparr>"

definition form_L2_E :: "string FormConfig" where
  "form_L2_E = \<lparr>validateMessages = Some [(''required'', ''L2''), (''email'', ''E'')]\<rparr>"

definition localized_form :: "(string, unit, string) ConfigProviderProps" where
  "localized_form = no_props\<lparr>cp_locale := Some locale_R, cp_form := Some form_L2_E\<rparr>"

section \<open>Properties of the pagination arithmetic\<close>

text \<open>For a divisor other than zero, \<open>ceil_div\<close> is the ceiling of the exact quotient.\<close>

lemma ceil_div_ceiling:
  "y \<noteq> 0 \<Longrightarrow> ceil_div (Num x) (Num y) = Num \<lceil>real_of_int x / real_of_int y\<rceil>"
  by (simp add: ceiling_divide_eq_div)

lemma paginationProps_total:
  "pc_total cfg = None \<Longrightarrow> pp_total (paginationProps (Some cfg) st ds) = Num (int (length ds))"
  by (simp add: paginationProps_def)

text \<open>With a start inside the array, \<open>array_splice\<close> removes the window that starts there.\<close>

lemma splice_window:
  assumes "0 \<le> s" and "s < int (length xs)"
  shows "fst (array_splice xs (Num s) (Num p))
         = take (nat (min p (int (length xs) - s))) (drop (nat s) xs)"
  using assms
  by (auto simp add: array_splice_def splice_start_def splice_count_def Let_def min_def max_def)

lemma ceil_div_NaN_right [simp]: "ceil_div a NaN = NaN"
  by (cases a) simp_all

lemma js_times_NaN_right [simp]: "js_times a NaN = NaN"
  by (cases a) simp_all

lemma js_gt_NaN_right [simp]: "js_gt a NaN = False"
  by (cases a) simp_all

lemma decimal_digit: "n < 10 \<Longrightarrow> decimal n = [''0123456789'' ! n]"
  by (simp add: decimal.simps)

text \<open>The definitions that a concrete render pass unfolds.\<close>

lemmas list_defs = List_render_def List_tree_def childrenContent_def childrenList_def
  renderItem_def cloneElement_def item_key_def get_prop_def visible_slice_def
  splitDataSource_def effective_props_def clamp_current_def largestPage_def paginationProps_def
  initial_state_def paginationObj_def empty_config_def number_or_def array_splice_def
  splice_start_def splice_count_def loadingProp_def isLoading_def renderEmptyFunc_def
  isSomethingAfterLastItem_def string_or_def

subsection \<open>C1: the clamp of the current page\<close>

text \<open>
  C1, as stated, fails. With pagination enabled by an empty configuration, the defaults
  of the shadow state and an empty data source, the incoming current page is 1 and the
  page size 10, so \<open>ceil(0 / 10) = 0\<close>; the render pass sets the current page to 0, not
  to \<open>max(1, 0) = 1\<close>.
\<close>

theorem C1_clamp_reaches_zero:
  "pp_current (paginationProps (Some no_config) (initial_state (Some no_config))
       ([] :: item list)) = Num 1
   \<and> pp_pageSize (paginationProps (Some no_config) (initial_state (Some no_config))
       ([] :: item list)) = Num 10
   \<and> pp_current (effective_props (Some no_config) (initial_state (Some no_config))
       ([] :: item list)) = Num 0"
  by (simp add: effective_props_def clamp_current_def largestPage_def paginationProps_def
      initial_state_def paginationObj_def empty_config_def no_config_def number_or_def)

text \<open>
  C1, amended: for a data source of length \<open>n\<close>, pagination enabled without a \<open>total\<close>
  of the caller's, an integer page size \<open>p\<close> other than 0 and an incoming current page
  \<open>c\<close>, the current page after the clamp is the smaller of \<open>c\<close> and \<open>ceil(n / p)\<close>:
  clamped down to \<open>ceil(n / p)\<close> when it exceeds it, unchanged otherwise, with no lower
  bound of 1.
\<close>

theorem C1_current_clamped_to_largest_page:
  assumes "pc_total cfg = None"
    and "pp_pageSize (paginationProps (Some cfg) st ds) = Num p"
    and "p \<noteq> 0"
    and "pp_current (paginationProps (Some cfg) st ds) = Num c"
  shows "pp_current (effective_props (Some cfg) st ds)
         = Num (min c \<lceil>real (length ds) / real_of_int p\<rceil>)"
proof -
  have "largestPage (paginationProps (Some cfg) st ds)
        = Num \<lceil>real (length ds) / real_of_int p\<rceil>"
    using assms(1-3) ceil_div_ceiling [of p "int (length ds)"]
    by (simp add: largestPage_def paginationProps_total)
  then show ?thesis
    using assms(4) by (simp add: effective_props_def clamp_current_def min_def)
qed

text \<open>
  The amended C1 at three items, \<open>{pageSize: 2}\<close> and a shadow current page of 5: the
  current page becomes \<open>ceil(3 / 2) = 2\<close>.
\<close>

theorem C1_current_clamped_witness:
  "pc_total page_size_two = None
   \<and> pp_pageSize (paginationProps (Some page_size_two)
         \<lparr>paginationCurrent = Num 5, paginationSize = Num 10\<rparr> three_items) = Num 2
   \<and> pp_current (paginationProps (Some page_size_two)
         \<lparr>paginationCurrent = Num 5, paginationSize = Num 10\<rparr> three_items) = Num 5
   \<and> pp_current (effective_props (Some page_size_two)
         \<lparr>paginationCurrent = Num 5, paginationSize = Num 10\<rparr> three_items) = Num 2"
  using C1_current_clamped_to_largest_page
    [of page_size_two "\<lparr>paginationCurrent = Num 5, paginationSize = Num 10\<rparr>" three_items 2 5]
  by (simp add: paginationProps_def empty_config_def page_size_two_def three_items_def)

subsection \<open>C2: the visible slice\<close>

text \<open>
  C2, as stated, fails where the start \<open>(c - 1) * p\<close> of the window is negative. With
  pagination enabled by an empty configuration, the defaults of the shadow state and an
  empty data source, the clamped current page is 0 and the page size 10: the start
  \<open>-10\<close> is below the length 0, so the first case of C2 applies, and
  \<open>min(10, 0 - (-10)) = 10\<close> is not the length of the visible slice, which is empty.
\<close>

theorem C2_negative_start:
  "pp_current (effective_props (Some no_config) (initial_state (Some no_config))
       ([] :: item list)) = Num 0
   \<and> pp_pageSize (effective_props (Some no_config) (initial_state (Some no_config))
       ([] :: item list)) = Num 10
   \<and> (0 - 1) * 10 < int (length ([] :: item list))
   \<and> visible_slice (Some no_config) (initial_state (Some no_config)) ([] :: item list) = []
   \<and> int (length (visible_slice (Some no_config) (initial_state (Some no_config))
         ([] :: item list)))
       \<noteq> min 10 (int (length ([] :: item list)) - (0 - 1) * 10)"
  by (simp add: visible_slice_def splitDataSource_def effective_props_def clamp_current_def
      largestPage_def paginationProps_def initial_state_def paginationObj_def empty_config_def
      no_config_def number_or_def array_splice_def splice_start_def splice_count_def)

text \<open>
  C2, amended: for a data source of length \<open>n\<close> with pagination enabled, an integer page
  size \<open>p\<close> and a current page \<open>c\<close> after the clamp such that the start \<open>(c - 1) * p\<close> is
  not negative: if \<open>(c - 1) * p < n\<close>, the visible slice is the contiguous window of the
  data source that starts at index \<open>(c - 1) * p\<close> and has length
  \<open>min(p, n - (c - 1) * p)\<close> (no element when \<open>p\<close> is negative); otherwise the visible
  slice is the whole data source.
\<close>

theorem C2_visible_slice_window:
  assumes "pp_current (effective_props (Some cfg) st ds) = Num c"
    and "pp_pageSize (effective_props (Some cfg) st ds) = Num p"
    and "0 \<le> (c - 1) * p"
  shows "((c - 1) * p < int (length ds) \<longrightarrow>
            visible_slice (Some cfg) st ds
              = take (nat (min p (int (length ds) - (c - 1) * p))) (drop (nat ((c - 1) * p)) ds)
            \<and> (0 \<le> p \<longrightarrow>
                 int (length (visible_slice (Some cfg) st ds))
                   = min p (int (length ds) - (c - 1) * p)))
       \<and> (int (length ds) \<le> (c - 1) * p \<longrightarrow> visible_slice (Some cfg) st ds = ds)"
proof -
  have v: "visible_slice (Some cfg) st ds =
        (if (c - 1) * p < int (length ds)
         then fst (array_splice ds (Num ((c - 1) * p)) (Num p)) else ds)"
    using assms(1,2) by (simp add: visible_slice_def splitDataSource_def Let_def)
  show ?thesis
    using assms(3) by (auto simp add: v splice_window)
qed

text \<open>
  The amended C2 on the second page of three items, two to a page (the window is
  \<open>[c]\<close>), and on the stale second page of one item before the clamp lands in the
  state: the clamp makes the page the first, and the window is the item.
\<close>

theorem C2_visible_slice_witness:
  "pp_current (effective_props (Some page_size_two)
       \<lparr>paginationCurrent = Num 2, paginationSize = Num 10\<rparr> three_items) = Num 2
   \<and> pp_pageSize (effective_props (Some page_size_two)
       \<lparr>paginationCurrent = Num 2, paginationSize = Num 10\<rparr> three_items) = Num 2
   \<and> (0 :: int) \<le> (2 - 1) * 2 \<and> (2 - 1) * 2 < int (length three_items)
   \<and> visible_slice (Some page_size_two)
       \<lparr>paginationCurrent = Num 2, paginationSize = Num 10\<rparr> three_items
     = [[(''key'', Str ''c'')]]"
  using C2_visible_slice_window
    [of page_size_two "\<lparr>paginationCurrent = Num 2, paginationSize = Num 10\<rparr>" three_items 2 2]
  by (simp add: effective_props_def clamp_current_def largestPage_def paginationProps_def
      empty_config_def page_size_two_def three_items_def)

subsection \<open>C8: a page size that is not positive\<close>

lemma slice_page_size_zero:
  assumes "pp_pageSize (paginationProps (Some cfg) st ds) = Num 0"
    and "pp_current (paginationProps (Some cfg) st ds) = Num c"
    and "pc_total cfg = None"
  shows "visible_slice (Some cfg) st ds = []"
  using assms paginationProps_total [of cfg st ds]
  by (auto simp add: visible_slice_def splitDataSource_def effective_props_def clamp_current_def
      largestPage_def Let_def array_splice_def splice_start_def splice_count_def)

text \<open>
  With a negative page size \<open>p\<close> the largest page \<open>L = ceil(n / p)\<close> is at most 0, the
  clamped current page is at most \<open>L\<close>, and the start \<open>(L - 1) * p\<close> already exceeds \<open>n\<close>.
\<close>

lemma slice_page_size_negative:
  assumes "pp_pageSize (paginationProps (Some cfg) st ds) = Num p" and "p < 0"
    and "pp_current (paginationProps (Some cfg) st ds) = Num c"
    and "pc_total cfg = None"
  shows "visible_slice (Some cfg) st ds = ds"
proof -
  let ?n = "int (length ds)"
  let ?L = "- ((- ?n) div p)"
  have L: "largestPage (paginationProps (Some cfg) st ds) = Num ?L"
    using assms by (simp add: largestPage_def paginationProps_total)
  have c': "pp_current (effective_props (Some cfg) st ds) = Num (min c ?L)"
    using assms(3) L by (simp add: effective_props_def clamp_current_def min_def)
  have p': "pp_pageSize (effective_props (Some cfg) st ds) = Num p"
    using assms(1) by (simp add: effective_props_def clamp_current_def)
  have "?n \<le> (?L - 1) * p"
  proof -
    have "(- ?n) div p * p + (- ?n) mod p = - ?n" by simp
    moreover have "p < (- ?n) mod p" using assms(2) by (rule neg_mod_bound)
    moreover have "(?L - 1) * p = - ((- ?n) div p * p) - p" by (simp add: algebra_simps)
    ultimately show ?thesis by linarith
  qed
  moreover have "(?L - 1) * p \<le> (min c ?L - 1) * p"
    using assms(2) by (simp add: mult_right_mono_neg)
  ultimately have "?n \<le> (min c ?L - 1) * p" by linarith
  then show ?thesis
    using c' p' by (simp add: visible_slice_def splitDataSource_def Let_def)
qed

lemma slice_page_size_NaN:
  assumes "pp_pageSize (paginationProps (Some cfg) st ds) = NaN"
  shows "visible_slice (Some cfg) st ds = ds"
  using assms
  by (simp add: visible_slice_def splitDataSource_def effective_props_def clamp_current_def
      largestPage_def Let_def)

text \<open>A render pass with an empty visible slice returns a tree.\<close>

lemma List_render_empty_slice:
  assumes "visible_slice (p_pagination props) st (p_dataSource props) = []"
  shows "\<exists>view. List_render props context st = Inr view
           \<and> v_content view =
               (if p_children props = None \<and> \<not> isLoading (p_loading props)
                then renderEmptyFunc (p_locale props)
                       (cc_getPrefixCls context ''list'' (p_prefixCls props))
                       (cc_renderEmpty context)
                else if isLoading (p_loading props) then MinHeightPlaceholder 53
                else NoContent)
           \<and> v_children view = p_children props
           \<and> v_spin view = loadingProp (p_loading props)"
  using assms
  by (simp add: List_render_def List_tree_def childrenContent_def Let_def)

text \<open>
  C8, as stated, fails. With \<open>{pageSize: 0}\<close> and the three items, the start of the
  window is 0, below the length 3, and \<open>splice(0, 0)\<close> removes nothing: the visible
  slice is empty, not the full data source, and the list shows the empty text.
\<close>

theorem C8_page_size_zero_empties_the_slice:
  "pc_pageSize page_size_zero = Some (Num 0)
   \<and> visible_slice (Some page_size_zero) (initial_state (Some page_size_zero)) three_items = []
   \<and> visible_slice (Some page_size_zero) (initial_state (Some page_size_zero)) three_items
       \<noteq> three_items
   \<and> map_sum id v_content
         (List_render (plain_list\<lparr>p_pagination := Some page_size_zero\<rparr>) root_context
            (initial_state (Some page_size_zero)))
       = Inr (EmptyText ''ant-list-empty-text'' ''No Data'')"
  by (simp add: list_defs plain_list_def root_context_def three_items_def page_size_zero_def)

text \<open>
  C8, amended: when pagination is enabled without a \<open>total\<close> of the caller's and the
  incoming current page is an integer, a page size that is not positive does not make
  the render pass fail, and it is not treated as "no pagination". With the page size 0
  (division by zero gives an infinity or \<open>NaN\<close>, which no current page exceeds) the
  visible slice is empty whatever the data source holds, and the render pass returns a
  tree: its body is the empty text when there are no extra children and the list is not
  loading, the fixed-height placeholder when it is loading, and nothing otherwise. With
  a negative page size, or with \<open>NaN\<close>, the visible slice is the full data source.
\<close>

theorem C8_page_size_not_positive:
  assumes "p_pagination props = Some cfg"
    and "pc_total cfg = None"
    and "pp_current (paginationProps (Some cfg) st (p_dataSource props)) = Num c"
  shows "(pp_pageSize (paginationProps (Some cfg) st (p_dataSource props)) = Num 0 \<longrightarrow>
            visible_slice (Some cfg) st (p_dataSource props) = []
            \<and> (\<exists>view. List_render props context st = Inr view
                  \<and> v_content view =
                      (if p_children props = None \<and> \<not> isLoading (p_loading props)
                       then renderEmptyFunc (p_locale props)
                              (cc_getPrefixCls context ''list'' (p_prefixCls props))
                              (cc_renderEmpty context)
                       else if isLoading (p_loading props) then MinHeightPlaceholder 53
                       else NoContent)))
       \<and> (\<forall>p < 0. pp_pageSize (paginationProps (Some cfg) st (p_dataSource props)) = Num p \<longrightarrow>
            visible_slice (Some cfg) st (p_dataSource props) = p_dataSource props)
       \<and> (pp_pageSize (paginationProps (Some cfg) st (p_dataSource props)) = NaN \<longrightarrow>
            visible_slice (Some cfg) st (p_dataSource props) = p_dataSource props)"
proof (intro conjI impI allI)
  assume z: "pp_pageSize (paginationProps (Some cfg) st (p_dataSource props)) = Num 0"
  show e: "visible_slice (Some cfg) st (p_dataSource props) = []"
    using z assms(3,2) by (rule slice_page_size_zero)
  show "\<exists>view. List_render props context st = Inr view
                  \<and> v_content view =
                      (if p_children props = None \<and> \<not> isLoading (p_loading props)
                       then renderEmptyFunc (p_locale props)
                              (cc_getPrefixCls context ''list'' (p_prefixCls props))
                              (cc_renderEmpty context)
                       else if isLoading (p_loading props) then MinHeightPlaceholder 53
                       else NoContent)"
    using List_render_empty_slice [of props st "context"] e assms(1) by auto
next
  fix p :: int
  assume "p < 0" and "pp_pageSize (paginationProps (Some cfg) st (p_dataSource props)) = Num p"
  then show "visible_slice (Some cfg) st (p_dataSource props) = p_dataSource props"
    using assms(3,2) slice_page_size_negative by blast
next
  assume "pp_pageSize (paginationProps (Some cfg) st (p_dataSource props)) = NaN"
  then show "visible_slice (Some cfg) st (p_dataSource props) = p_dataSource props"
    by (rule slice_page_size_NaN)
qed

text \<open>The amended C8 at \<open>{pageSize: 0}\<close> and the three items.\<close>

theorem C8_page_size_zero_witness:
  "p_pagination (plain_list\<lparr>p_pagination := Some page_size_zero\<rparr>) = Some page_size_zero
   \<and> pc_total page_size_zero = None
   \<and> pp_current (paginationProps (Some page_size_zero) (initial_state (Some page_size_zero))
        (p_dataSource (plain_list\<lparr>p_pagination := Some page_size_zero\<rparr>))) = Num 1
   \<and> pp_pageSize (paginationProps (Some page_size_zero) (initial_state (Some page_size_zero))
        (p_dataSource (plain_list\<lparr>p_pagination := Some page_size_zero\<rparr>))) = Num 0
   \<and> visible_slice (Some page_size_zero) (initial_state (Some page_size_zero))
        (p_dataSource (plain_list\<lparr>p_pagination := Some page_size_zero\<rparr>)) = []"
  using C8_page_size_not_positive
    [of "plain_list\<lparr>p_pagination := Some page_size_zero\<rparr>" page_size_zero
      "initial_state (Some page_size_zero)" 1 root_context]
  by (simp add: paginationProps_def initial_state_def paginationObj_def empty_config_def
      number_or_def page_size_zero_def plain_list_def)

section \<open>Properties of the rendered items\<close>

lemma map_renderItem_None:
  "map_renderItem rk None keys its i = (keys, replicate (length its) None)"
  by (induction its arbitrary: keys i) (simp_all add: renderItem_def)

text \<open>
  With a \<open>renderItem\<close>, the map \<open>keys\<close> gets the key of every item under its index, and
  the nodes are the results of \<open>renderItem\<close> in order.
\<close>

lemma map_renderItem_Some:
  "map_renderItem rk (Some r) keys its i =
     ((\<lambda>k. if i \<le> k \<and> k < i + length its then Some (item_key rk (its ! (k - i)) k)
           else keys k),
      map (\<lambda>(j, it). r it j) (enumerate i its))"
proof (induction its arbitrary: keys i)
  case Nil
  show ?case by (auto simp add: fun_eq_iff)
next
  case (Cons it its)
  have "(\<lambda>k. if Suc i \<le> k \<and> k < Suc i + length its
              then Some (item_key rk (its ! (k - Suc i)) k)
              else (keys(i \<mapsto> item_key rk it i)) k)
        = (\<lambda>k. if i \<le> k \<and> k < i + length (it # its)
              then Some (item_key rk ((it # its) ! (k - i)) k) else keys k)"
    by (rule ext) (auto simp add: nth_Cons' Suc_diff_Suc le_Suc_eq)
  then show ?case
    by (simp add: renderItem_def Cons.IH)
qed

lemma map_renderItem_Some_0:
  "map_renderItem rk (Some r) keys its 0 =
     ((\<lambda>k. if k < length its then Some (item_key rk (its ! k) k) else keys k),
      map (\<lambda>(j, it). r it j) (enumerate 0 its))"
  by (simp add: map_renderItem_Some cong: if_cong)

lemma clone_children_elements:
  assumes "\<forall>n \<in> set nodes. n \<noteq> None"
  shows "clone_children keys nodes i =
     Inr (map (\<lambda>(j, n). \<lparr>key_of = (case keys j of None \<Rightarrow> Undefined | Some k \<Rightarrow> k),
                          element_of = the n\<rparr>) (enumerate i nodes))"
  using assms
  by (induction nodes arbitrary: i) (auto simp add: cloneElement_def)

text \<open>
  When \<open>renderItem\<close> returns an element for every item of the slice, the children are
  these elements in order, the one at index \<open>j\<close> with the key of the item at index \<open>j\<close>.
\<close>

lemma childrenList_elements:
  assumes "\<forall>j < length slice. r (slice ! j) j \<noteq> None"
  shows "childrenList rk (Some r) slice =
     Inr (map (\<lambda>(j, it). \<lparr>key_of = item_key rk it j, element_of = the (r it j)\<rparr>)
            (enumerate 0 slice))"
proof -
  have nodes: "\<forall>n \<in> set (map (\<lambda>(j, it). r it j) (enumerate 0 slice)). n \<noteq> None"
    using assms by (auto simp add: in_set_enumerate_eq)
  have "map (\<lambda>(j, n).
               \<lparr>key_of = (case (if j < length slice then Some (item_key rk (slice ! j) j)
                                else None) of None \<Rightarrow> Undefined | Some k \<Rightarrow> k),
                element_of = the n\<rparr>)
          (enumerate 0 (map (\<lambda>(j, it). r it j) (enumerate 0 slice)))
       = map (\<lambda>(j, it). \<lparr>key_of = item_key rk it j, element_of = the (r it j)\<rparr>)
           (enumerate 0 slice)"
    by (rule nth_equalityI) (simp_all add: nth_enumerate_eq)
  then show ?thesis
    using clone_children_elements [OF nodes]
    by (simp add: childrenList_def map_renderItem_Some_0)
qed

lemma childrenList_missing_renderItem:
  "slice \<noteq> [] \<Longrightarrow> childrenList rk None slice = Inl (CloneElementOfNull 0)"
  by (cases slice)
     (simp_all add: childrenList_def map_renderItem_None renderItem_def cloneElement_def)

lemma List_render_items:
  assumes "p_renderItem props = Some r"
    and "visible_slice (p_pagination props) st (p_dataSource props) = slice"
    and "slice \<noteq> []"
    and "\<forall>j < length slice. r (slice ! j) j \<noteq> None"
  shows "\<exists>view. List_render props context st = Inr view
           \<and> v_content view =
               (let cl = map (\<lambda>(j, it). \<lparr>key_of = item_key (p_rowKey props) it j,
                                            element_of = the (r it j)\<rparr>) (enumerate 0 slice)
                in case p_grid props of
                     Some g \<Rightarrow> GridRow (gutter g) cl
                   | None \<Rightarrow>
                       ItemsList
                         (cc_getPrefixCls context ''list'' (p_prefixCls props) @ ''-items'') cl)
           \<and> v_children view = p_children props
           \<and> v_spin view = loadingProp (p_loading props)"
  using assms childrenList_elements [of slice r "p_rowKey props"]
  by (simp add: List_render_def List_tree_def childrenContent_def Let_def)

lemma List_render_missing_renderItem:
  assumes "p_renderItem props = None"
    and "visible_slice (p_pagination props) st (p_dataSource props) \<noteq> []"
  shows "List_render props context st = Inl (CloneElementOfNull 0)"
  using assms
  by (simp add: List_render_def List_tree_def childrenContent_def Let_def
      childrenList_missing_renderItem)

subsection \<open>C3: the body of a loading list\<close>

text \<open>
  C3, as stated, fails. The loading list of three items, with the extra child
  \<open>extra\<close>, has a visible slice that is not empty, and its body is the list of the
  three rendered items, not the placeholder.
\<close>

theorem C3_loading_keeps_the_items:
  "isLoading (p_loading loading_list)
   \<and> visible_slice (p_pagination loading_list) default_state (p_dataSource loading_list)
       = three_items
   \<and> map_sum id v_content (List_render loading_list root_context default_state)
       = Inr (ItemsList ''ant-list-items''
           [\<lparr>key_of = Str ''a'', element_of = ''item 0''\<rparr>,
            \<lparr>key_of = Str ''b'', element_of = ''item 1''\<rparr>,
            \<lparr>key_of = Str ''c'', element_of = ''item 2''\<rparr>])
   \<and> map_sum id v_content (List_render loading_list root_context default_state)
       \<noteq> Inr (MinHeightPlaceholder 53)"
  by (simp add: list_defs default_state_def loading_list_def plain_list_def root_context_def
      three_items_def item_label_def decimal_digit)

text \<open>
  C3, amended: when \<open>loading\<close> is true, the body is the fixed-height placeholder (a node
  of minimal height 53) exactly when the visible slice is empty; when the visible slice
  is not empty and \<open>renderItem\<close> returns an element for each of its items, the body is
  still the list of the rendered items (in a grid row or a plain list). In both cases
  the caller-supplied extra children are rendered beside the body.
\<close>

theorem C3_loading_body:
  assumes "isLoading (p_loading props)"
    and "visible_slice (p_pagination props) st (p_dataSource props) = slice"
  shows "(slice = [] \<longrightarrow>
            (\<exists>view. List_render props context st = Inr view
               \<and> v_content view = MinHeightPlaceholder 53
               \<and> v_children view = p_children props))
       \<and> (\<forall>r. slice \<noteq> [] \<and> p_renderItem props = Some r
              \<and> (\<forall>j < length slice. r (slice ! j) j \<noteq> None) \<longrightarrow>
            (\<exists>view. List_render props context st = Inr view
               \<and> v_content view =
                   (let cl = map (\<lambda>(j, it). \<lparr>key_of = item_key (p_rowKey props) it j,
                                                element_of = the (r it j)\<rparr>) (enumerate 0 slice)
                    in case p_grid props of
                         Some g \<Rightarrow> GridRow (gutter g) cl
                       | None \<Rightarrow>
                           ItemsList
                             (cc_getPrefixCls context ''list'' (p_prefixCls props) @ ''-items'') cl)
               \<and> v_children view = p_children props))"
proof (intro conjI impI allI)
  assume "slice = []"
  then show "\<exists>view. List_render props context st = Inr view
               \<and> v_content view = MinHeightPlaceholder 53
               \<and> v_children view = p_children props"
    using List_render_empty_slice [of props st "context"] assms by auto
next
  fix r
  assume "slice \<noteq> [] \<and> p_renderItem props = Some r
          \<and> (\<forall>j < length slice. r (slice ! j) j \<noteq> None)"
  then show "\<exists>view. List_render props context st = Inr view
               \<and> v_content view =
                   (let cl = map (\<lambda>(j, it). \<lparr>key_of = item_key (p_rowKey props) it j,
                                                element_of = the (r it j)\<rparr>) (enumerate 0 slice)
                    in case p_grid props of
                         Some g \<Rightarrow> GridRow (gutter g) cl
                       | None \<Rightarrow>
                           ItemsList
                             (cc_getPrefixCls context ''list'' (p_prefixCls props) @ ''-items'') cl)
               \<and> v_children view = p_children props"
    using List_render_items [of props r st slice "context"] assms(2) by auto
qed

text \<open>The amended C3 at the loading list of three items.\<close>

theorem C3_loading_body_witness:
  "isLoading (p_loading loading_list)
   \<and> visible_slice (p_pagination loading_list) default_state (p_dataSource loading_list)
       = three_items
   \<and> three_items \<noteq> []
   \<and> (\<exists>view. List_render loading_list root_context default_state = Inr view
         \<and> v_content view =
             ItemsList ''ant-list-items''
               [\<lparr>key_of = Str ''a'', element_of = ''item 0''\<rparr>,
                \<lparr>key_of = Str ''b'', element_of = ''item 1''\<rparr>,
                \<lparr>key_of = Str ''c'', element_of = ''item 2''\<rparr>]
         \<and> v_children view = Some ''extra'')"
proof -
  have l: "isLoading (p_loading loading_list)"
    by (simp add: loading_list_def isLoading_def loadingProp_def)
  have s: "visible_slice (p_pagination loading_list) default_state (p_dataSource loading_list)
           = three_items"
    by (simp add: loading_list_def plain_list_def visible_slice_def splitDataSource_def)
  have r: "three_items \<noteq> [] \<and> p_renderItem loading_list = Some item_label
           \<and> (\<forall>j < length three_items. item_label (three_items ! j) j \<noteq> None)"
    by (simp add: loading_list_def plain_list_def three_items_def item_label_def)
  from C3_loading_body [OF l s, of root_context, THEN conjunct2, THEN spec, THEN mp, OF r] l s
  show ?thesis
    by (simp add: loading_list_def plain_list_def three_items_def root_context_def
        item_key_def get_prop_def string_or_def item_label_def decimal_digit)
qed

subsection \<open>C5: the keys of the rendered items\<close>

text \<open>
  C5, as stated, fails. The synthetic key is not the last resort of a chain: under the
  \<open>rowKey\<close> function that reads \<open>id\<close>, the second of the two items has no \<open>id\<close> but
  has the \<open>key\<close> field \<open>b\<close>, which is a key; the function yields nothing for it, and
  the element rendered for it carries the synthetic key \<open>list-item-1\<close>, not \<open>b\<close>.
\<close>

theorem C5_synthetic_key_despite_key_field:
  "p_rowKey keyed_by_id = Some key_of_id
   \<and> get_prop (items_with_id ! 1) ''id'' = Undefined
   \<and> get_prop (items_with_id ! 1) ''key'' = Str ''b''
   \<and> truthy (get_prop (items_with_id ! 1) ''key'')
   \<and> map_sum id v_content (List_render keyed_by_id root_context default_state)
       = Inr (ItemsList ''ant-list-items''
           [\<lparr>key_of = Str ''x1'', element_of = ''item 0''\<rparr>,
            \<lparr>key_of = Str ''list-item-1'', element_of = ''item 1''\<rparr>])"
  by (simp add: list_defs default_state_def keyed_by_id_def plain_list_def root_context_def
      items_with_id_def key_of_id_def item_label_def decimal_digit)

text \<open>
  C5, amended: the prop \<open>rowKey\<close> alone selects the one source of the key of every
  item. When \<open>renderItem\<close> returns an element for every item of a visible slice that is
  not empty, the render pass returns the list of these elements, and the element at
  index \<open>i\<close> carries this key: with a \<open>rowKey\<close> function, the result of the function on
  the item; with a \<open>rowKey\<close> string and no function, the property of the item under that
  name; with neither, the property \<open>key\<close> of the item; and whenever the source in force
  yields no key (a falsy value), the synthetic key \<open>list-item-\<close> followed by the index
  \<open>i\<close> of the item within the visible slice, without a look at the sources below it.
\<close>

theorem C5_key_precedence:
  assumes "p_renderItem props = Some r"
    and "visible_slice (p_pagination props) st (p_dataSource props) = slice"
    and "slice \<noteq> []"
    and "\<forall>j < length slice. r (slice ! j) j \<noteq> None"
  shows "\<exists>view cl. List_render props context st = Inr view
           \<and> v_content view =
               (case p_grid props of
                  Some g \<Rightarrow> GridRow (gutter g) cl
                | None \<Rightarrow>
                    ItemsList (cc_getPrefixCls context ''list'' (p_prefixCls props) @ ''-items'') cl)
           \<and> length cl = length slice
           \<and> (\<forall>i < length slice.
                 element_of (cl ! i) = the (r (slice ! i) i)
                 \<and> (\<forall>f. p_rowKey props = Some (RowKeyFunction f) \<longrightarrow>
                        key_of (cl ! i) =
                          (if truthy (f (slice ! i)) then f (slice ! i)
                           else Str (''list-item-'' @ decimal i)))
                 \<and> (\<forall>name. p_rowKey props = Some (RowKeyString name) \<longrightarrow>
                        key_of (cl ! i) =
                          (if truthy (get_prop (slice ! i) name) then get_prop (slice ! i) name
                           else Str (''list-item-'' @ decimal i)))
                 \<and> (p_rowKey props = None \<longrightarrow>
                        key_of (cl ! i) =
                          (if truthy (get_prop (slice ! i) ''key'') then get_prop (slice ! i) ''key''
                           else Str (''list-item-'' @ decimal i))))"
proof -
  define cl where "cl = map (\<lambda>(j, it). \<lparr>key_of = item_key (p_rowKey props) it j,
                                            element_of = the (r it j)\<rparr>) (enumerate 0 slice)"
  obtain view where v: "List_render props context st = Inr view"
    and c0: "v_content view =
               (let cl = map (\<lambda>(j, it). \<lparr>key_of = item_key (p_rowKey props) it j,
                                            element_of = the (r it j)\<rparr>) (enumerate 0 slice)
                in case p_grid props of
                     Some g \<Rightarrow> GridRow (gutter g) cl
                   | None \<Rightarrow>
                       ItemsList
                         (cc_getPrefixCls context ''list'' (p_prefixCls props) @ ''-items'') cl)"
    using List_render_items [OF assms, of "context"] by blast
  have c: "v_content view =
               (case p_grid props of
                  Some g \<Rightarrow> GridRow (gutter g) cl
                | None \<Rightarrow>
                    ItemsList (cc_getPrefixCls context ''list'' (p_prefixCls props) @ ''-items'') cl)"
    unfolding cl_def using c0 by (simp add: Let_def)
  have len: "length cl = length slice" by (simp add: cl_def)
  have nth: "cl ! i = \<lparr>key_of = item_key (p_rowKey props) (slice ! i) i,
                        element_of = the (r (slice ! i) i)\<rparr>" if "i < length slice" for i
    using that by (simp add: cl_def nth_enumerate_eq)
  have keys: "\<forall>i < length slice.
                 element_of (cl ! i) = the (r (slice ! i) i)
                 \<and> (\<forall>f. p_rowKey props = Some (RowKeyFunction f) \<longrightarrow>
                        key_of (cl ! i) =
                          (if truthy (f (slice ! i)) then f (slice ! i)
                           else Str (''list-item-'' @ decimal i)))
                 \<and> (\<forall>name. p_rowKey props = Some (RowKeyString name) \<longrightarrow>
                        key_of (cl ! i) =
                          (if truthy (get_prop (slice ! i) name) then get_prop (slice ! i) name
                           else Str (''list-item-'' @ decimal i)))
                 \<and> (p_rowKey props = None \<longrightarrow>
                        key_of (cl ! i) =
                          (if truthy (get_prop (slice ! i) ''key'') then get_prop (slice ! i) ''key''
                           else Str (''list-item-'' @ decimal i)))"
    by (simp add: nth item_key_def)
  from v c len keys show ?thesis by blast
qed

text \<open>
  The amended C5 at two items under the \<open>rowKey\<close> function that reads \<open>id\<close>: the first item has an
  \<open>id\<close> and a \<open>key\<close>, and gets the \<open>id\<close>; the second has only a \<open>key\<close>, the function
  yields nothing for it, and it gets the synthetic key of its index.
\<close>

theorem C5_key_precedence_witness:
  "p_renderItem keyed_by_id = Some item_label
   \<and> visible_slice (p_pagination keyed_by_id) default_state (p_dataSource keyed_by_id)
       = items_with_id
   \<and> items_with_id \<noteq> []
   \<and> (\<exists>view cl. List_render keyed_by_id root_context default_state = Inr view
         \<and> v_content view = ItemsList ''ant-list-items'' cl
         \<and> length cl = 2
         \<and> key_of (cl ! 0) = Str ''x1''
         \<and> key_of (cl ! 1) = Str ''list-item-1'')"
proof -
  have r: "p_renderItem keyed_by_id = Some item_label"
    by (simp add: keyed_by_id_def plain_list_def)
  have s: "visible_slice (p_pagination keyed_by_id) default_state (p_dataSource keyed_by_id)
           = items_with_id"
    by (simp add: keyed_by_id_def plain_list_def visible_slice_def splitDataSource_def)
  have n: "items_with_id \<noteq> []"
    by (simp add: items_with_id_def)
  have e: "\<forall>j < length items_with_id. item_label (items_with_id ! j) j \<noteq> None"
    by (simp add: item_label_def)
  obtain view cl where v: "List_render keyed_by_id root_context default_state = Inr view"
    and c: "v_content view =
              (case p_grid keyed_by_id of
                 Some g \<Rightarrow> GridRow (gutter g) cl
               | None \<Rightarrow>
                   ItemsList (cc_getPrefixCls root_context ''list'' (p_prefixCls keyed_by_id)
                     @ ''-items'') cl)"
    and l: "length cl = length items_with_id"
    and k: "\<forall>i < length items_with_id.
              element_of (cl ! i) = the (item_label (items_with_id ! i) i)
              \<and> (\<forall>f. p_rowKey keyed_by_id = Some (RowKeyFunction f) \<longrightarrow>
                     key_of (cl ! i) =
                       (if truthy (f (items_with_id ! i)) then f (items_with_id ! i)
                        else Str (''list-item-'' @ decimal i)))
              \<and> (\<forall>name. p_rowKey keyed_by_id = Some (RowKeyString name) \<longrightarrow>
                     key_of (cl ! i) =
                       (if truthy (get_prop (items_with_id ! i) name)
                        then get_prop (items_with_id ! i) name
                        else Str (''list-item-'' @ decimal i)))
              \<and> (p_rowKey keyed_by_id = None \<longrightarrow>
                     key_of (cl ! i) =
                       (if truthy (get_prop (items_with_id ! i) ''key'')
                        then get_prop (items_with_id ! i) ''key''
                        else Str (''list-item-'' @ decimal i)))"
    using C5_key_precedence [OF r s n e, of root_context] by blast
  have f: "p_rowKey keyed_by_id = Some (RowKeyFunction (\<lambda>it. get_prop it ''id''))"
    by (simp add: keyed_by_id_def key_of_id_def)
  have "key_of (cl ! 0) = Str ''x1''"
    using k [THEN spec, of 0] f by (simp add: items_with_id_def get_prop_def)
  moreover have "key_of (cl ! 1) = Str ''list-item-1''"
    using k [THEN spec, of 1] f by (simp add: items_with_id_def get_prop_def decimal_digit)
  moreover have "v_content view = ItemsList ''ant-list-items'' cl"
    using c by (simp add: keyed_by_id_def plain_list_def root_context_def string_or_def)
  moreover have "length cl = 2"
    using l by (simp add: items_with_id_def)
  ultimately have "List_render keyed_by_id root_context default_state = Inr view
         \<and> v_content view = ItemsList ''ant-list-items'' cl
         \<and> length cl = 2
         \<and> key_of (cl ! 0) = Str ''x1''
         \<and> key_of (cl ! 1) = Str ''list-item-1''"
    using v by simp
  then have "\<exists>view cl. List_render keyed_by_id root_context default_state = Inr view
         \<and> v_content view = ItemsList ''ant-list-items'' cl
         \<and> length cl = 2
         \<and> key_of (cl ! 0) = Str ''x1''
         \<and> key_of (cl ! 1) = Str ''list-item-1''"
    by (intro exI)
  with r s n show ?thesis
    by (intro conjI)
qed

subsection \<open>C7: a list without \<open>renderItem\<close>\<close>

text \<open>
  C7 at the three items without a \<open>renderItem\<close>: every item is rendered as \<open>null\<close>, and
  the render pass ends with the exception of \<open>cloneElement\<close> on the first of them
  instead of a tree without item nodes.
\<close>

theorem C7_missing_renderItem_throws:
  "List_render (plain_list\<lparr>p_renderItem := None\<rparr>) root_context default_state
   = Inl (CloneElementOfNull 0)"
  by (simp add: list_defs default_state_def plain_list_def root_context_def three_items_def)

section \<open>Properties of the pagination events\<close>

text \<open>
  C6: a change event of the pagination control (\<open>onChange\<close> or \<open>onShowSizeChange\<close>)
  with the arguments \<open>page\<close> and \<open>pageSize\<close> leaves the shadow state at exactly these two
  values, whatever the configuration of the caller holds (controlled or not). When
  the caller supplied a handler of the same name, the event adds one call to the log:
  the call of that handler with the same two arguments, made when the shadow state
  already holds them. Without such a handler, or without pagination, nothing is called.
\<close>

theorem C6_shadow_state_then_handler:
  "shadow (onPaginationChange pagination page pageSize w)
     = \<lparr>paginationCurrent = page, paginationSize = pageSize\<rparr>
   \<and> calls (onPaginationChange pagination page pageSize w)
     = calls w @
       (case (case pagination of None \<Rightarrow> None | Some cfg \<Rightarrow> pc_onChange cfg) of
          None \<Rightarrow> []
        | Some h \<Rightarrow>
            [\<lparr>called = h, call_page = page, call_pageSize = pageSize,
              state_at_call = \<lparr>paginationCurrent = page, paginationSize = pageSize\<rparr>\<rparr>])
   \<and> shadow (onPaginationShowSizeChange pagination page pageSize w)
     = \<lparr>paginationCurrent = page, paginationSize = pageSize\<rparr>
   \<and> calls (onPaginationShowSizeChange pagination page pageSize w)
     = calls w @
       (case (case pagination of None \<Rightarrow> None | Some cfg \<Rightarrow> pc_onShowSizeChange cfg) of
          None \<Rightarrow> []
        | Some h \<Rightarrow>
            [\<lparr>called = h, call_page = page, call_pageSize = pageSize,
              state_at_call = \<lparr>paginationCurrent = page, paginationSize = pageSize\<rparr>\<rparr>])"
  by (simp add: onPaginationChange_def onPaginationShowSizeChange_def triggerPaginationEvent_def
      setPaginationCurrent_def setPaginationSize_def invoke_def handler_named_def Let_def
      split: option.split)

section \<open>Properties of the render pass on the store\<close>

lemmas store_defs = alloc_array_def alloc_object_def write_current_def splice_array_def
  read_array_def

lemma pagination_pass_shadow:
  "shadow (snd (pagination_pass pagination dataSource w)) = shadow w
   \<and> calls (snd (pagination_pass pagination dataSource w)) = calls w"
  by (simp add: pagination_pass_def store_defs Let_def split_def split: option.split)

text \<open>Every array and object that existed before the pass is as it was.\<close>

lemma pagination_pass_store:
  assumes "a < next_address w"
  shows "arrays (snd (pagination_pass pagination dataSource w)) a = arrays w a
   \<and> objects (snd (pagination_pass pagination dataSource w)) a = objects w a"
  using assms
  by (simp add: pagination_pass_def store_defs Let_def split_def split: option.split)

text \<open>
  The pass on the store computes what the pass on values computes: the record in the
  new \<open>paginationProps\<close> object is \<open>effective_props\<close>, and the array it returns holds
  \<open>visible_slice\<close>.
\<close>

lemma pagination_pass_result:
  assumes "dataSource < next_address w"
  shows "fst (fst (pagination_pass pagination dataSource w)) = next_address w
       \<and> fst (snd (fst (pagination_pass pagination dataSource w)))
         = effective_props pagination (shadow w) (read_array w dataSource)
       \<and> objects (snd (pagination_pass pagination dataSource w)) (next_address w)
         = Some (effective_props pagination (shadow w) (read_array w dataSource))
       \<and> read_array (snd (pagination_pass pagination dataSource w))
           (snd (snd (fst (pagination_pass pagination dataSource w))))
         = visible_slice pagination (shadow w) (read_array w dataSource)
       \<and> next_address w < snd (snd (fst (pagination_pass pagination dataSource w)))"
  using assms
  by (simp add: pagination_pass_def store_defs Let_def split_def effective_props_def
      clamp_current_def visible_slice_def splitDataSource_def split: option.split)

lemma render_pass_agrees:
  assumes "dataSource < next_address w" and "p_dataSource props = read_array w dataSource"
  shows "fst (render_pass props context dataSource w) = List_render props context (shadow w)"
  using pagination_pass_result [OF assms(1), of "p_pagination props"] assms(2)
  by (simp add: render_pass_def List_render_def split_def Let_def)

text \<open>
  C10: a render pass leaves the shadow state and the log of handler calls as they
  were, and every array and object that existed before it, the caller's data source
  among them. The clamped current page is written to a \<open>paginationProps\<close> object that
  the pass itself creates, at an address that was not in use. Of the things that can
  happen to a mounted list, only the two events of the pagination control can change
  the shadow state.
\<close>

theorem C10_render_pass_frame:
  "shadow (step (Render props context dataSource) w) = shadow w
   \<and> calls (step (Render props context dataSource) w) = calls w
   \<and> (\<forall>a < next_address w.
         arrays (step (Render props context dataSource) w) a = arrays w a
         \<and> objects (step (Render props context dataSource) w) a = objects w a)
   \<and> (dataSource < next_address w \<longrightarrow>
         objects (step (Render props context dataSource) w) (next_address w)
           = Some (effective_props (p_pagination props) (shadow w) (read_array w dataSource)))
   \<and> (shadow (step act w) \<noteq> shadow w \<longrightarrow> is_pagination_event act)"
proof -
  have s: "step (Render props context dataSource) w
           = snd (pagination_pass (p_pagination props) dataSource w)"
    by (simp add: render_pass_def split_def Let_def)
  have "shadow (step act w) \<noteq> shadow w \<longrightarrow> is_pagination_event act"
    by (cases act) (simp_all add: render_pass_def split_def Let_def pagination_pass_shadow)
  then show ?thesis
    unfolding s
    using pagination_pass_shadow [of "p_pagination props" dataSource w]
      pagination_pass_store [of _ w "p_pagination props" dataSource]
      pagination_pass_result [of dataSource w "p_pagination props"]
    by simp
qed

text \<open>
  C10 at the stale list: after the render pass the shadow state is still on page 2 and
  the caller's array at address 0 still holds its item, while the new object at
  address 1 holds the current page 1.
\<close>

theorem C10_render_pass_frame_witness:
  "(0 :: nat) < next_address stale_world
   \<and> shadow (step (Render paged_list root_context 0) stale_world)
       = \<lparr>paginationCurrent = Num 2, paginationSize = Num 10\<rparr>
   \<and> arrays (step (Render paged_list root_context 0) stale_world) 0
       = Some [[(''key'', Str ''a'')]]
   \<and> objects (step (Render paged_list root_context 0) stale_world) 1
       = Some \<lparr>pp_current = Num 1, pp_total = Num 1, pp_pageSize = Num 2, pp_position = None\<rparr>"
  using C10_render_pass_frame
    [of paged_list root_context 0 stale_world "Render paged_list root_context 0"]
  by (simp add: stale_world_def paged_list_def plain_list_def page_size_two_def empty_config_def
      effective_props_def clamp_current_def largestPage_def paginationProps_def read_array_def)

section \<open>Properties of the configuration provider\<close>

subsection \<open>C4: the direction under nested providers\<close>

text \<open>
  C4, as stated, fails. Under an outer provider with the direction \<open>rtl\<close>, an inner
  provider without a direction publishes no direction: the consumer inside it reads
  \<open>undefined\<close>, not \<open>rtl\<close>.
\<close>

theorem C4_inner_provider_resets_direction:
  "observed_direction root_context
     (ConfigProvider (no_props\<lparr>cp_direction := Some Rtl\<rparr>) None
        [Consumer ''outside'', ConfigProvider no_props None [Consumer ''inside'']])
   = [(''outside'', Some Rtl), (''inside'', None)]"
  by (simp add: observed_direction_def renderProvider_def Let_def no_props_def)

text \<open>
  C4, amended: for nested providers, a consumer reads the direction that the nearest
  enclosing provider was given as a prop, and nothing of the direction of the providers
  further out: beneath an inner provider without a direction it reads no direction
  (also when the outer provider sets \<open>rtl\<close>); beneath an inner provider that sets \<open>ltr\<close>
  it reads \<open>ltr\<close>; and a consumer under the outer provider but outside the inner one
  reads the direction of the outer provider.
\<close>

theorem C4_direction_of_nearest_provider:
  "observed_direction context
     (ConfigProvider outer outerLegacy
        [Consumer a, ConfigProvider inner innerLegacy [Consumer b]])
   = [(a, cp_direction outer), (b, cp_direction inner)]"
  by (simp add: observed_direction_def renderProvider_def Let_def split: option.split)

subsection \<open>C9: the validation messages\<close>

lemma map_of_assign: "map_of (assign kvs k v) = (map_of kvs)(k \<mapsto> v)"
  by (induction kvs) (auto simp add: fun_eq_iff)

text \<open>In a spread, a later binding of a key wins.\<close>

lemma map_of_spread_rev: "map_of (spread xs ys) = map_of xs ++ map_of (rev ys)"
proof (induction ys arbitrary: xs)
  case Nil
  show ?case by (simp add: spread_def)
next
  case (Cons kv ys)
  obtain k v where kv: "kv = (k, v)" by (cases kv)
  have "map_of (spread xs (kv # ys)) = map_of (spread (assign xs k v) ys)"
    by (simp add: spread_def kv)
  also have "\<dots> = map_of (assign xs k v) ++ map_of (rev ys)"
    by (rule Cons.IH)
  also have "\<dots> = (map_of xs)(k \<mapsto> v) ++ map_of (rev ys)"
    by (simp only: map_of_assign)
  also have "\<dots> = map_of xs ++ ([k \<mapsto> v] ++ map_of (rev ys))"
    by (auto simp add: fun_eq_iff map_add_def split: option.split)
  also have "\<dots> = map_of xs ++ map_of (rev (kv # ys))"
    by (simp add: kv)
  finally show ?case .
qed

lemma map_of_rev_distinct: "distinct (map fst xs) \<Longrightarrow> map_of (rev xs) = map_of xs"
proof (induction xs)
  case Nil
  show ?case by simp
next
  case (Cons kv xs)
  obtain k v where kv: "kv = (k, v)" by (cases kv)
  have "map_of xs k = None"
    using Cons.prems by (simp add: kv map_of_eq_None_iff)
  then have "[k \<mapsto> v] ++ map_of xs = (map_of xs)(k \<mapsto> v)"
    by (auto simp add: fun_eq_iff map_add_def split: option.split)
  then show ?case
    using Cons by (simp add: kv)
qed

lemma map_of_spread:
  "distinct (map fst ys) \<Longrightarrow> map_of (spread xs ys) = map_of xs ++ map_of ys"
  by (simp add: map_of_spread_rev map_of_rev_distinct)

lemma childNode_renderProvider:
  "childNode (renderProvider props children context legacyLocale)
     = (if mergedValidateMessages props = [] then Children children
        else RcFormProvider (mergedValidateMessages props) children)"
  by (simp add: renderProvider_def Let_def)

text \<open>
  C9, as stated, fails. A provider without a \<open>locale\<close> of its own resolves its locale to
  the legacy locale, here one whose default messages are \<open>{required: 'R'}\<close>; yet the
  merged messages are empty and the children are passed on without a form provider.
\<close>

theorem C9_legacy_locale_defaults_ignored:
  "locale_provided (renderProvider no_props ''children'' root_context (Some locale_R))
     = Some locale_R
   \<and> localeDefaultMessages (Some locale_R) = [(''required'', ''R'')]
   \<and> mergedValidateMessages no_props = []
   \<and> childNode (renderProvider no_props ''children'' root_context (Some locale_R))
     = Children ''children''"
  by (simp add: renderProvider_def mergedValidateMessages_def localeDefaultMessages_def
      formMessages_def no_props_def locale_R_def Let_def)

text \<open>
  C9, amended: the merged validation messages of a provider start empty, take the
  default messages of the locale that this provider was given as a prop (if any; the
  legacy locale, to which the provider falls back for the locale it publishes, is not
  read), and then the locally supplied messages on top, the local one winning for
  every key (the keys of the local object being distinct). The children are wrapped in
  a form provider with the merged messages exactly when these are not empty, and are
  passed on as they are otherwise.
\<close>

theorem C9_merged_validation_messages:
  assumes "\<forall>m. formMessages (cp_form props) = Some m \<longrightarrow> distinct (map fst m)"
  shows "map_of (mergedValidateMessages props)
     = map_of (localeDefaultMessages (cp_locale props))
       ++ map_of (case formMessages (cp_form props) of None \<Rightarrow> [] | Some m \<Rightarrow> m)
   \<and> childNode (renderProvider props children context legacyLocale)
     = (if mergedValidateMessages props = [] then Children children
        else RcFormProvider (mergedValidateMessages props) children)"
  using assms
  by (simp add: mergedValidateMessages_def map_of_spread childNode_renderProvider
      split: option.split)

text \<open>
  The amended C9 at the example of the specification: the locale default
  \<open>{required: 'R'}\<close> under the local \<open>{required: 'L2', email: 'E'}\<close>.
\<close>

theorem C9_merged_validation_messages_witness:
  "formMessages (cp_form localized_form) = Some [(''required'', ''L2''), (''email'', ''E'')]
   \<and> distinct (map fst [(''required'', ''L2''), (''email'', ''E'')])
   \<and> localeDefaultMessages (cp_locale localized_form) = [(''required'', ''R'')]
   \<and> mergedValidateMessages localized_form = [(''required'', ''L2''), (''email'', ''E'')]
   \<and> childNode (renderProvider localized_form ''children'' root_context None)
     = RcFormProvider [(''required'', ''L2''), (''email'', ''E'')] ''children''"
  using C9_merged_validation_messages [of localized_form "''children''" root_context None]
  by (simp add: mergedValidateMessages_def localeDefaultMessages_def formMessages_def
      localized_form_def no_props_def locale_R_def form_L2_E_def spread_def)

end
